theory Spec2Isabelle
  imports Complex_Main
begin

section \<open>JSON values and the JavaScript operations the extension applies to them\<close>

text \<open>
  The extension reads two kinds of JSON text: the \<^verbatim>\<open>package.json\<close> under the cursor and
  the documentation file \<^verbatim>\<open>.vscode/script-docs.json\<close>. Both go through \<^verbatim>\<open>JSON.parse\<close>, which
  is part of the runtime and not of this repository, so a text is represented by what
  \<^verbatim>\<open>JSON.parse\<close> makes of it: a value of type \<open>json\<close>, or nothing when it throws.

  Strings are lists of code units below 256. An object is the list of its own properties
  in insertion order; a parsed object has each key once.
\<close>

datatype json =
    JNull
  | JBool bool
  | JNum real
  | JStr string
  | JArr "json list"
  | JObj "(string \<times> json) list"

text \<open>
  Reading a property of an object does not stop at the object's own properties: a name that
  is not an own property is looked up in \<^verbatim>\<open>Object.prototype\<close>, whose members are functions
  (and, for \<^verbatim>\<open>__proto__\<close>, the prototype object itself). The result of a read is therefore
  one of three things.
\<close>

datatype jsval =
    Undefined
  | Val json
  | Inherited string

definition object_prototype_names :: "string list" where
  "object_prototype_names =
     [''constructor'', ''__defineGetter__'', ''__defineSetter__'', ''hasOwnProperty'',
      ''__lookupGetter__'', ''__lookupSetter__'', ''isPrototypeOf'', ''propertyIsEnumerable'',
      ''toString'', ''valueOf'', ''__proto__'', ''toLocaleString'']"

text \<open>
  An exception is a value with its message. The code tells a file system error with the
  code \<^verbatim>\<open>FileNotFound\<close> from every other exception and otherwise uses only the message.
  \<open>Beyond\<close> is not an exception: it marks a run that
  leaves the fragment of JavaScript modelled here (a property read on an array, a string,
  a number, a boolean or a function, whose inherited members depend on the runtime's
  version), and no \<^verbatim>\<open>catch\<close> of the program sees it.
\<close>

datatype exn = FileNotFound string | Error string

datatype fault = Thrown exn | Beyond

fun message :: "exn \<Rightarrow> string" where
  "message (FileNotFound m) = m"
| "message (Error m) = m"

fun truthy :: "json \<Rightarrow> bool" where
  "truthy JNull = False"
| "truthy (JBool b) = b"
| "truthy (JNum r) = (r \<noteq> 0)"
| "truthy (JStr s) = (s \<noteq> [])"
| "truthy (JArr xs) = True"
| "truthy (JObj kvs) = True"

fun truthy_val :: "jsval \<Rightarrow> bool" where
  "truthy_val Undefined = False"
| "truthy_val (Val v) = truthy v"
| "truthy_val (Inherited n) = True"

text \<open>\<^verbatim>\<open>a || b\<close>\<close>

definition or_else :: "jsval \<Rightarrow> jsval \<Rightarrow> jsval" where
  "or_else a b = (if truthy_val a then a else b)"

text \<open>
  \<^verbatim>\<open>v[k]\<close>: \<open>read_own\<close> when \<open>v\<close> is an object; reading a property of \<^verbatim>\<open>null\<close>
  throws a TypeError.
\<close>

definition null_read :: "string \<Rightarrow> exn" where
  "null_read k = Error (''Cannot read properties of null (reading '' @ [CHR 0x27] @ k @ [CHR 0x27] @ '')'')"

definition read_own :: "(string \<times> json) list \<Rightarrow> string \<Rightarrow> jsval" where
  "read_own kvs k =
     (case map_of kvs k of
        Some v \<Rightarrow> Val v
      | None \<Rightarrow> if k \<in> set object_prototype_names then Inherited k else Undefined)"

fun get_prop :: "json \<Rightarrow> string \<Rightarrow> fault + jsval" where
  "get_prop JNull k = Inl (Thrown (null_read k))"
| "get_prop (JObj kvs) k = Inr (read_own kvs k)"
| "get_prop (JBool b) k = Inl Beyond"
| "get_prop (JNum r) k = Inl Beyond"
| "get_prop (JStr s) k = Inl Beyond"
| "get_prop (JArr xs) k = Inl Beyond"

text \<open>\<^verbatim>\<open>v?.[k]\<close>: \<^verbatim>\<open>undefined\<close> when \<open>v\<close> is \<^verbatim>\<open>undefined\<close> or \<^verbatim>\<open>null\<close>.\<close>

fun opt_get :: "jsval \<Rightarrow> string \<Rightarrow> fault + jsval" where
  "opt_get Undefined k = Inr Undefined"
| "opt_get (Val JNull) k = Inr Undefined"
| "opt_get (Val v) k = get_prop v k"
| "opt_get (Inherited n) k = Inl Beyond"

text \<open>
  Writing an own property keeps the position of a key that is already there and appends a
  new one.
\<close>

fun set_own :: "(string \<times> 'v) list \<Rightarrow> string \<Rightarrow> 'v \<Rightarrow> (string \<times> 'v) list" where
  "set_own [] k v = [(k, v)]"
| "set_own ((k', v') # kvs) k v =
     (if k' = k then (k, v) # kvs else (k', v') # set_own kvs k v)"

text \<open>
  The own enumerable properties of a value, as the spread \<^verbatim>\<open>{...v}\<close> copies them: the
  properties of an object, the elements of an array and the code units of a string under
  their decimal indices, nothing for \<^verbatim>\<open>null\<close>, a number or a boolean.
\<close>

fun decimal :: "nat \<Rightarrow> string" where
  "decimal n =
     (if n < 10 then [char_of (48 + n)] else decimal (n div 10) @ [char_of (48 + n mod 10)])"

definition indexed :: "json list \<Rightarrow> (string \<times> json) list" where
  "indexed xs = zip (map decimal [0 ..< length xs]) xs"

fun own_props :: "json \<Rightarrow> (string \<times> json) list" where
  "own_props (JObj kvs) = kvs"
| "own_props (JArr xs) = indexed xs"
| "own_props (JStr s) = indexed (map (\<lambda>c. JStr [c]) s)"
| "own_props JNull = []"
| "own_props (JBool b) = []"
| "own_props (JNum r) = []"

text \<open>\<^verbatim>\<open>{...a, ...b}\<close> for an object \<open>a\<close> given by its properties.\<close>

definition spread :: "(string \<times> json) list \<Rightarrow> json \<Rightarrow> (string \<times> json) list" where
  "spread a b = fold (\<lambda>(k, v) acc. set_own acc k v) (own_props b) a"

text \<open>
  A template literal converts the value it interpolates to a string. For an object this
  calls its \<^verbatim>\<open>toString\<close>: the one every object inherits gives \<^verbatim>\<open>[object Object]\<close>, but an
  own property \<^verbatim>\<open>toString\<close> of a parsed object hides it and is no function, the inherited
  \<^verbatim>\<open>valueOf\<close> gives back the object, and a TypeError is thrown. An array joins the strings
  of its elements, with nothing for \<^verbatim>\<open>null\<close>, so it throws when converting an element does.
  Every other value, the inherited members among them, has a string.
\<close>

fun converts :: "json \<Rightarrow> bool" where
  "converts (JObj kvs) = (map_of kvs ''toString'' = None)"
| "converts (JArr xs) = list_all converts xs"
| "converts JNull = True"
| "converts (JBool b) = True"
| "converts (JNum r) = True"
| "converts (JStr s) = True"

fun converts_val :: "jsval \<Rightarrow> bool" where
  "converts_val Undefined = True"
| "converts_val (Val v) = converts v"
| "converts_val (Inherited n) = True"

definition conversion_error :: exn where
  "conversion_error = Error ''Cannot convert object to primitive value''"

text \<open>
  The string itself, where it is modelled: the strings of numbers, of arrays whose
  elements all convert, and of functions are left out.
\<close>

fun to_text :: "jsval \<Rightarrow> fault + string" where
  "to_text (Val (JStr s)) = Inr s"
| "to_text (Val JNull) = Inr ''null''"
| "to_text (Val (JBool b)) = Inr (if b then ''true'' else ''false'')"
| "to_text (Val (JObj kvs)) =
     (if map_of kvs ''toString'' = None then Inr ''[object Object]''
      else Inl (Thrown conversion_error))"
| "to_text Undefined = Inr ''undefined''"
| "to_text (Val (JNum r)) = Inl Beyond"
| "to_text (Val (JArr xs)) =
     (if list_all converts xs then Inl Beyond else Inl (Thrown conversion_error))"
| "to_text (Inherited n) = Inl Beyond"

section \<open>The host: files, workspace, messages\<close>

text \<open>
  A JSON file is what reading and parsing it gives: it is missing, reading it fails, its
  text is not JSON (each with the message of the exception), or it holds a value. Writing
  \<^verbatim>\<open>JSON.stringify(v, null, 2)\<close> to a file makes it hold \<open>v\<close>.
\<close>

datatype jsonFile = Missing string | Unreadable string | Malformed string | Holds json

fun readJson :: "jsonFile \<Rightarrow> exn + json" where
  "readJson (Missing m) = Inl (FileNotFound m)"
| "readJson (Unreadable m) = Inl (Error m)"
| "readJson (Malformed m) = Inl (Error m)"
| "readJson (Holds v) = Inr v"

fun exists :: "jsonFile \<Rightarrow> bool" where
  "exists (Missing m) = False"
| "exists (Unreadable m) = True"
| "exists (Malformed m) = True"
| "exists (Holds v) = True"

datatype notice = Info string | Failure string

text \<open>
  The state a run can see and change: the provider's \<^verbatim>\<open>cachedDocs\<close> (\<open>None\<close> is
  \<^verbatim>\<open>null\<close>), whether the workspace has a folder (without one \<^verbatim>\<open>workspaceFolders\<close> is
  \<^verbatim>\<open>undefined\<close>), the documentation file, whether writing
  it fails (with the exception's message), the \<^verbatim>\<open>package.json\<close> files that
  \<^verbatim>\<open>findFiles("**/package.json", "**/node_modules/**")\<close> returns, each once, under their
  workspace-relative paths, and the messages shown to the user so far.
\<close>

record world =
  cachedDocs :: "json option"
  hasWorkspace :: bool
  scriptDocs :: jsonFile
  writeError :: "string option"
  packageJsons :: "(string \<times> jsonFile) list"
  shown :: "notice list"

definition notify :: "notice \<Rightarrow> world \<Rightarrow> world" where
  "notify n w = w\<lparr>shown := shown w @ [n]\<rparr>"

definition clearCache :: "world \<Rightarrow> world" where
  "clearCache w = w\<lparr>cachedDocs := None\<rparr>"

text \<open>
  The document under the cursor: its file name, its workspace-relative path
  (\<^verbatim>\<open>asRelativePath(document.uri)\<close>), what \<^verbatim>\<open>JSON.parse(document.getText())\<close> gives
  (\<open>None\<close> when it throws) and its lines.
\<close>

record TextDocument =
  fileName :: string
  relativePath :: string
  parsed :: "json option"
  lines :: "string list"

record Position =
  line :: nat
  character :: nat

definition lineAt :: "TextDocument \<Rightarrow> nat \<Rightarrow> fault + string" where
  "lineAt d n =
     (if n < length (lines d) then Inr (lines d ! n)
      else Inl (Thrown (Error ''Illegal value for `line`'')))"

text \<open>
  The hover. Its content is Markdown that four template literals build: a heading with
  the script name, a line with the description, a line with the command and a line with
  the usage \<^verbatim>\<open>npm run\<close> and the script name. The three values determine the content, and
  the hover is kept as these values.
\<close>

record Hover =
  scriptName :: string
  description :: jsval
  command :: jsval

text \<open>
  Building the content throws when the description or the command has no string; the
  exception leaves \<^verbatim>\<open>provideHover\<close>.
\<close>

definition render :: "string \<Rightarrow> jsval \<Rightarrow> jsval \<Rightarrow> fault + Hover" where
  "render name d cmd =
     (if converts_val d \<and> converts_val cmd
      then Inr \<lparr>scriptName = name, description = d, command = cmd\<rparr>
      else Inl (Thrown conversion_error))"

section \<open>The two line patterns\<close>

definition dq :: char where
  "dq = CHR 0x22"

text \<open>
  \<^verbatim>\<open>line.match(/"([^"]+)":/)\<close>: the leftmost quote that is followed by one or more
  characters other than a quote, a quote and a colon. The group cannot run over a quote,
  so from a given opening quote only the maximal run can match.
\<close>

fun lineMatch :: "string \<Rightarrow> string option" where
  "lineMatch [] = None"
| "lineMatch (c # cs) =
     (if c = dq \<and> takeWhile (\<lambda>x. x \<noteq> dq) cs \<noteq> []
         \<and> take 2 (dropWhile (\<lambda>x. x \<noteq> dq) cs) = [dq, CHR '':'']
      then Some (takeWhile (\<lambda>x. x \<noteq> dq) cs)
      else lineMatch cs)"

text \<open>\<^verbatim>\<open>\s\<close> on code units below 256.\<close>

definition is_space :: "char \<Rightarrow> bool" where
  "is_space c = (c \<in> set [CHR 0x09, CHR 0x0A, CHR 0x0B, CHR 0x0C, CHR 0x0D, CHR 0x20, CHR 0xA0])"

text \<open>\<^verbatim>\<open>[a-zA-Z0-9_:-]\<close>\<close>

definition is_name_char :: "char \<Rightarrow> bool" where
  "is_name_char c =
     (let n = of_char c :: nat
      in (97 \<le> n \<and> n \<le> 122) \<or> (65 \<le> n \<and> n \<le> 90) \<or> (48 \<le> n \<and> n \<le> 57)
         \<or> c = CHR ''_'' \<or> c = CHR '':'' \<or> c = CHR ''-'')"

text \<open>\<^verbatim>\<open>line.match(/^\s*"([a-zA-Z0-9_:-]+)"\s*:/)\<close>\<close>

definition scriptMatch :: "string \<Rightarrow> string option" where
  "scriptMatch l =
     (case dropWhile is_space l of
        [] \<Rightarrow> None
      | c # cs \<Rightarrow>
          if c = dq \<and> takeWhile is_name_char cs \<noteq> []
             \<and> take 1 (dropWhile is_name_char cs) = [dq]
             \<and> take 1 (dropWhile is_space (drop 1 (dropWhile is_name_char cs))) = [CHR '':'']
          then Some (takeWhile is_name_char cs)
          else None)"

definition endsWith :: "string \<Rightarrow> string \<Rightarrow> bool" where
  "endsWith s suffix = (length suffix \<le> length s \<and> drop (length s - length suffix) s = suffix)"

text \<open>\<^verbatim>\<open>typeof v === "object"\<close>, \<^verbatim>\<open>Array.isArray(v)\<close>, \<^verbatim>\<open>Object.keys(v)\<close>\<close>

fun typeof_object :: "json \<Rightarrow> bool" where
  "typeof_object JNull = True"
| "typeof_object (JArr xs) = True"
| "typeof_object (JObj kvs) = True"
| "typeof_object (JBool b) = False"
| "typeof_object (JNum r) = False"
| "typeof_object (JStr s) = False"

fun isArray :: "json \<Rightarrow> bool" where
  "isArray (JArr xs) = True"
| "isArray JNull = False"
| "isArray (JBool b) = False"
| "isArray (JNum r) = False"
| "isArray (JStr s) = False"
| "isArray (JObj kvs) = False"

definition object_keys :: "json \<Rightarrow> string list" where
  "object_keys v = map fst (own_props v)"

section \<open>The provider with a flat documentation file\<close>

text \<open>
  \<^verbatim>\<open>src/providers/hoverProvider.ts\<close> as of the releases before 0.1.0: the documentation
  file maps script names to descriptions and is merged over built-in defaults.
\<close>

definition defaultDocs :: "(string \<times> json) list" where
  "defaultDocs =
     [(''dev'', JStr ''Runs development server (default port: 5173)''),
      (''build'', JStr ''Creates a production build''),
      (''preview'', JStr ''Previews the built version locally''),
      (''test'', JStr ''Runs tests''),
      (''lint'', JStr ''Runs code linting''),
      (''format'', JStr ''Formats the codebase'')]"

text \<open>\<^verbatim>\<open>if (this.cachedDocs && !force) return this.cachedDocs\<close>\<close>

definition cache_hit :: "bool \<Rightarrow> world \<Rightarrow> json option" where
  "cache_hit force w =
     (case cachedDocs w of
        None \<Rightarrow> None
      | Some c \<Rightarrow> if truthy c \<and> \<not> force then Some c else None)"

text \<open>
  \<^verbatim>\<open>findFiles\<close> finds no file when the documentation file is missing; an exception of
  \<^verbatim>\<open>readFile\<close> or \<^verbatim>\<open>JSON.parse\<close> ends in the \<^verbatim>\<open>catch\<close>.
\<close>

definition loadCustomDocs_flat :: "bool \<Rightarrow> world \<Rightarrow> json \<times> world" where
  "loadCustomDocs_flat force w =
     (case cache_hit force w of
        Some c \<Rightarrow> (c, w)
      | None \<Rightarrow>
          (let docs =
             (if exists (scriptDocs w) then
                (case readJson (scriptDocs w) of
                   Inr customDocs \<Rightarrow> JObj (spread defaultDocs customDocs)
                 | Inl e \<Rightarrow> JObj defaultDocs)
              else JObj defaultDocs)
           in (docs, w\<lparr>cachedDocs := Some docs\<rparr>)))"

text \<open>\<^verbatim>\<open>packageJson.scripts?.[scriptName]\<close>\<close>

definition script_of :: "json \<Rightarrow> string \<Rightarrow> fault + jsval" where
  "script_of packageJson name =
     (case get_prop packageJson ''scripts'' of
        Inl f \<Rightarrow> Inl f
      | Inr scripts \<Rightarrow> opt_get scripts name)"

definition no_description :: jsval where
  "no_description = Val (JStr ''No description available.'')"

definition provideHover_flat ::
  "TextDocument \<Rightarrow> Position \<Rightarrow> world \<Rightarrow> (fault + Hover option) \<times> world" where
  "provideHover_flat document position w =
     (case parsed document of
        None \<Rightarrow> (Inr None, w)
      | Some packageJson \<Rightarrow>
          (case lineAt document (line position) of
             Inl f \<Rightarrow> (Inl f, w)
           | Inr l \<Rightarrow>
               (case lineMatch l of
                  None \<Rightarrow> (Inr None, w)
                | Some name \<Rightarrow>
                    (case script_of packageJson name of
                       Inl f \<Rightarrow> (Inl f, w)
                     | Inr cmd \<Rightarrow>
                         if \<not> truthy_val cmd then (Inr None, w)
                         else
                           (let (docs, w') = loadCustomDocs_flat False w
                            in (case get_prop docs name of
                                  Inl f \<Rightarrow> (Inl f, w')
                                | Inr d \<Rightarrow>
                                    (case render name (or_else d no_description) cmd of
                                       Inl f \<Rightarrow> (Inl f, w')
                                     | Inr hover \<Rightarrow> (Inr (Some hover), w'))))))))"

text \<open>
  The first version of the lookup, \<^verbatim>\<open>getScriptDocs\<close>, reads the file on every call and has
  its own table of defaults.
\<close>

definition defaultDocs0 :: "(string \<times> json) list" where
  "defaultDocs0 =
     [(''dev'', JStr ''Runs development server (default port: 5173)''),
      (''build'', JStr ''Creates a production build''),
      (''preview'', JStr ''Previews the built version locally''),
      (''test'', JStr ''Runs tests''),
      (''lint'', JStr ''Runs code linting''),
      (''format'', JStr ''Formats code using prettier'')]"

definition getScriptDocs :: "world \<Rightarrow> (string \<times> json) list" where
  "getScriptDocs w =
     (if \<not> hasWorkspace w then defaultDocs0
      else if exists (scriptDocs w) then
        (case readJson (scriptDocs w) of
           Inr customDocs \<Rightarrow> spread defaultDocs0 customDocs
         | Inl e \<Rightarrow> defaultDocs0)
      else defaultDocs0)"

section \<open>The provider with a nested documentation file\<close>

text \<open>
  The provider of release 0.1.0: the documentation file maps the relative path of each
  \<^verbatim>\<open>package.json\<close> to the descriptions of its scripts, and a file of the old flat shape
  is converted when it is loaded.
\<close>

definition looksLikeOldStructure :: "json \<Rightarrow> bool" where
  "looksLikeOldStructure rawDocs =
     (truthy rawDocs \<and> typeof_object rawDocs \<and> \<not> isArray rawDocs
      \<and> length (object_keys rawDocs) > 0
      \<and> \<not> list_ex (\<lambda>key. CHR ''/'' \<in> set key \<or> CHR 0x5C \<in> set key \<or> key = ''package.json'')
            (object_keys rawDocs))"

text \<open>
  The new structure: the old object under \<^verbatim>\<open>"package.json"\<close>, and an empty object for every
  other \<^verbatim>\<open>package.json\<close> found, unless \<^verbatim>\<open>newStructure[relativePath]\<close> is truthy already.
\<close>

definition newStructure :: "json \<Rightarrow> string list \<Rightarrow> (string \<times> json) list" where
  "newStructure rawDocs paths =
     fold (\<lambda>relativePath acc.
             if relativePath \<noteq> ''package.json'' \<and> \<not> truthy_val (read_own acc relativePath)
             then set_own acc relativePath (JObj [])
             else acc)
          paths [(''package.json'', rawDocs)]"

text \<open>The inner \<^verbatim>\<open>catch (readFileError)\<close>.\<close>

definition readFileError :: "exn \<Rightarrow> world \<Rightarrow> json option \<times> world" where
  "readFileError e w =
     (case e of
        FileNotFound m \<Rightarrow> (None, w\<lparr>cachedDocs := None\<rparr>)
      | Error m \<Rightarrow>
          (None, (notify (Failure ''Failed to read script-docs.json. Please check file format.'') w)
                   \<lparr>cachedDocs := None\<rparr>))"

definition loadCustomDocs :: "bool \<Rightarrow> world \<Rightarrow> json option \<times> world" where
  "loadCustomDocs force w =
     (case cache_hit force w of
        Some c \<Rightarrow> (Some c, w)
      | None \<Rightarrow>
          if \<not> hasWorkspace w then (None, w)
          else
            (case readJson (scriptDocs w) of
               Inl e \<Rightarrow> readFileError e w
             | Inr rawDocs \<Rightarrow>
                 if looksLikeOldStructure rawDocs then
                   (let w1 = notify (Info ''Detected old script-docs.json structure. Converting to nested format.'') w;
                        new = JObj (newStructure rawDocs (map fst (packageJsons w)))
                    in (case writeError w1 of
                          Some m \<Rightarrow> readFileError (Error m) w1
                        | None \<Rightarrow>
                            (Some new,
                             (notify (Info ''script-docs.json successfully converted to nested format.'')
                                (w1\<lparr>scriptDocs := Holds new\<rparr>))\<lparr>cachedDocs := Some new\<rparr>)))
                 else if truthy rawDocs \<and> typeof_object rawDocs \<and> \<not> isArray rawDocs then
                   (Some rawDocs, w\<lparr>cachedDocs := Some rawDocs\<rparr>)
                 else readFileError (Error ''script-docs.json has an invalid format.'') w))"

definition provideHover ::
  "TextDocument \<Rightarrow> Position \<Rightarrow> world \<Rightarrow> (fault + Hover option) \<times> world" where
  "provideHover document position w =
     (if endsWith (fileName document) ''package.json'' then
        (case parsed document of
           None \<Rightarrow> (Inr None, w)
         | Some packageJson \<Rightarrow>
             (case lineAt document (line position) of
                Inl f \<Rightarrow> (Inl f, w)
              | Inr l \<Rightarrow>
                  (case scriptMatch l of
                     None \<Rightarrow> (Inr None, w)
                   | Some name \<Rightarrow>
                       (case script_of packageJson name of
                          Inl f \<Rightarrow> (Inl f, w)
                        | Inr cmd \<Rightarrow>
                            if \<not> truthy_val cmd then (Inr None, w)
                            else
                              (let (loaded, w') = loadCustomDocs False w;
                                   docs = (case loaded of None \<Rightarrow> Val JNull | Some d \<Rightarrow> Val d)
                               in (case opt_get docs (relativePath document) of
                                     Inl f \<Rightarrow> (Inl f, w')
                                   | Inr packageDocs \<Rightarrow>
                                       (case opt_get packageDocs name of
                                          Inl f \<Rightarrow> (Inl f, w')
                                        | Inr d \<Rightarrow>
                                            (case render name (or_else d no_description) cmd of
                                               Inl f \<Rightarrow> (Inl f, w')
                                             | Inr hover \<Rightarrow> (Inr (Some hover), w')))))))))
      else (Inr None, w))"

section \<open>Regenerating the documentation file\<close>

text \<open>\<^verbatim>\<open>updateScriptDocsForWorkspace\<close> in \<^verbatim>\<open>src/extension.ts\<close>.\<close>

definition template :: "string \<Rightarrow> string \<Rightarrow> string \<Rightarrow> string" where
  "template name relPath cmd =
     ''Description for '' @ [CHR 0x27] @ name @ [CHR 0x27] @ '' script in '' @ relPath
       @ '': '' @ cmd"

text \<open>
  The right-hand side \<^verbatim>\<open>existingDescription || `Description for ...`\<close> of the assignment in
  the \<^verbatim>\<open>forEach\<close> over \<^verbatim>\<open>Object.keys(packageJson.scripts)\<close>: the existing description
  when it is truthy, the template otherwise. A description inherited from
  \<^verbatim>\<open>Object.prototype\<close> is a function; it is not followed further.
\<close>

definition descriptionFor ::
  "json \<Rightarrow> string \<Rightarrow> (string \<times> json) list \<Rightarrow> string \<Rightarrow> fault + json" where
  "descriptionFor existingDocs relPath scripts name =
     (case get_prop existingDocs relPath of
        Inl f \<Rightarrow> Inl f
      | Inr existing \<Rightarrow>
          (case opt_get existing name of
             Inl f \<Rightarrow> Inl f
           | Inr existingDescription \<Rightarrow>
               if truthy_val existingDescription then
                 (case existingDescription of
                    Val v \<Rightarrow> Inr v
                  | _ \<Rightarrow> Inl Beyond)
               else
                 (case to_text (read_own scripts name) of
                    Inl f \<Rightarrow> Inl f
                  | Inr cmd \<Rightarrow> Inr (JStr (template name relPath cmd)))))"

text \<open>
  The assignment \<^verbatim>\<open>newDocs[relativePath][scriptName] = ...\<close>, on the properties \<open>entry\<close> of
  \<^verbatim>\<open>newDocs[relativePath]\<close>. An assignment to \<^verbatim>\<open>__proto__\<close> creates no own property.
\<close>

definition describeScript ::
  "json \<Rightarrow> string \<Rightarrow> (string \<times> json) list \<Rightarrow> string \<Rightarrow> (string \<times> json) list
     \<Rightarrow> fault + (string \<times> json) list" where
  "describeScript existingDocs relPath scripts name entry =
     (case descriptionFor existingDocs relPath scripts name of
        Inl f \<Rightarrow> Inl f
      | Inr v \<Rightarrow> Inr (if name = ''__proto__'' then entry else set_own entry name v))"

fun describeScripts ::
  "json \<Rightarrow> string \<Rightarrow> (string \<times> json) list \<Rightarrow> string list \<Rightarrow> (string \<times> json) list
     \<Rightarrow> fault + (string \<times> json) list" where
  "describeScripts existingDocs relPath scripts [] entry = Inr entry"
| "describeScripts existingDocs relPath scripts (name # names) entry =
     (case describeScript existingDocs relPath scripts name entry of
        Inl f \<Rightarrow> Inl f
      | Inr entry' \<Rightarrow> describeScripts existingDocs relPath scripts names entry')"

text \<open>
  The body of the \<^verbatim>\<open>try\<close> for one file whose text has been parsed. \<^verbatim>\<open>newDocs[relativePath]\<close>
  is new at this point, as every path is found once; a path that is there already, or that
  names a member of \<^verbatim>\<open>Object.prototype\<close>, is not followed further. The result is
  \<^verbatim>\<open>newDocs\<close> at the end of the \<^verbatim>\<open>try\<close>, or at the point where an exception is thrown
  together with the exception.
\<close>

definition scanPackage ::
  "json \<Rightarrow> string \<Rightarrow> json \<Rightarrow> (string \<times> json) list
     \<Rightarrow> fault + (string \<times> json) list" where
  "scanPackage existingDocs relPath packageJson newDocs =
     (case read_own newDocs relPath of
        Undefined \<Rightarrow>
          (case get_prop packageJson ''scripts'' of
             Inl f \<Rightarrow> Inl f
           | Inr scripts \<Rightarrow>
               if truthy_val scripts then
                 (case scripts of
                    Val (JObj sc) \<Rightarrow>
                      (case describeScripts existingDocs relPath sc (map fst sc) [] of
                         Inl f \<Rightarrow> Inl f
                       | Inr entry \<Rightarrow> Inr (set_own newDocs relPath (JObj entry)))
                  | _ \<Rightarrow> Inl Beyond)
               else
                 (case get_prop existingDocs relPath of
                    Inl f \<Rightarrow> Inl f
                  | Inr existing \<Rightarrow>
                      if truthy_val existing then
                        (case existing of
                           Val v \<Rightarrow> Inr (set_own newDocs relPath v)
                         | _ \<Rightarrow> Inl Beyond)
                      else Inr (set_own newDocs relPath (JObj []))))
      | _ \<Rightarrow> Inl Beyond)"

text \<open>
  The \<^verbatim>\<open>catch (readError)\<close> of one file: the existing entry, or an error marker. An
  exception thrown here leaves the loop.
\<close>

definition readError ::
  "json \<Rightarrow> string \<Rightarrow> exn \<Rightarrow> (string \<times> json) list \<Rightarrow> fault + (string \<times> json) list" where
  "readError existingDocs relPath e newDocs =
     (case get_prop existingDocs relPath of
        Inl f \<Rightarrow> Inl f
      | Inr existing \<Rightarrow>
          if truthy_val existing then
            (case existing of
               Val v \<Rightarrow> Inr (set_own newDocs relPath v)
             | _ \<Rightarrow> Inl Beyond)
          else
            Inr (set_own newDocs relPath
                   (JObj [(''__error__'', JStr (''Failed to process: '' @ message e))])))"

definition scanFile ::
  "json \<Rightarrow> string \<times> jsonFile \<Rightarrow> (string \<times> json) list \<Rightarrow> fault + (string \<times> json) list" where
  "scanFile existingDocs f newDocs =
     (case readJson (snd f) of
        Inl e \<Rightarrow> readError existingDocs (fst f) e newDocs
      | Inr packageJson \<Rightarrow>
          (case scanPackage existingDocs (fst f) packageJson newDocs of
             Inl (Thrown e) \<Rightarrow> readError existingDocs (fst f) e newDocs
           | Inl Beyond \<Rightarrow> Inl Beyond
           | Inr newDocs' \<Rightarrow> Inr newDocs'))"

fun scanFiles ::
  "json \<Rightarrow> (string \<times> jsonFile) list \<Rightarrow> (string \<times> json) list \<Rightarrow> fault + (string \<times> json) list" where
  "scanFiles existingDocs [] newDocs = Inr newDocs"
| "scanFiles existingDocs (f # fs) newDocs =
     (case scanFile existingDocs f newDocs of
        Inl x \<Rightarrow> Inl x
      | Inr newDocs' \<Rightarrow> scanFiles existingDocs fs newDocs')"

text \<open>
  \<^verbatim>\<open>for (const existingPath in existingDocs)\<close>: the packages of the existing documentation
  that the scan did not find.
\<close>

definition mergeExisting :: "json \<Rightarrow> (string \<times> json) list \<Rightarrow> (string \<times> json) list" where
  "mergeExisting existingDocs newDocs =
     fold (\<lambda>(existingPath, v) acc.
             if \<not> truthy_val (read_own acc existingPath) then set_own acc existingPath v else acc)
          (own_props existingDocs) newDocs"

text \<open>Reading the existing file: the documentation, \<^verbatim>\<open>fileExists\<close>, and the message shown.\<close>

definition readExisting :: "world \<Rightarrow> json \<times> bool \<times> world" where
  "readExisting w =
     (case readJson (scriptDocs w) of
        Inr v \<Rightarrow> (v, True, notify (Info ''Existing script-docs.json found. Merging new scripts.'') w)
      | Inl (FileNotFound m) \<Rightarrow>
          (JObj [], False, notify (Info ''script-docs.json not found. Creating a new one.'') w)
      | Inl (Error m) \<Rightarrow>
          (JObj [], False, notify (Failure ''Failed to read existing script-docs.json.'') w))"

text \<open>The outer \<^verbatim>\<open>catch (error)\<close>.\<close>

definition updateFailed :: "exn \<Rightarrow> world \<Rightarrow> world" where
  "updateFailed e w = notify (Failure (''Failed to update script-docs.json: '' @ message e)) w"

definition writeDocs :: "json \<Rightarrow> world \<Rightarrow> exn + world" where
  "writeDocs v w =
     (case writeError w of
        Some m \<Rightarrow> Inl (Error m)
      | None \<Rightarrow> Inr (w\<lparr>scriptDocs := Holds v\<rparr>))"

text \<open>
  The command. Every exception ends in the outer \<^verbatim>\<open>catch\<close>, so the result is a world, or
  \<open>None\<close> for a run that leaves the modelled fragment.
\<close>

definition updateScriptDocsForWorkspace :: "world \<Rightarrow> world option" where
  "updateScriptDocsForWorkspace w =
     (if \<not> hasWorkspace w then Some (updateFailed (Error ''No workspace folder found'') w)
      else
        (let (existingDocs, fileExists, w1) = readExisting w
         in if packageJsons w = [] then
              (if \<not> fileExists then
                 Some (updateFailed
                   (Error ''No package.json files found in workspace and no existing script-docs.json.'') w1)
               else
                 (let w2 = notify (Info ''No package.json files found in workspace, but existing script-docs.json will be kept.'') w1
                  in (case writeDocs existingDocs w2 of
                        Inl e \<Rightarrow> Some (updateFailed e w2)
                      | Inr w3 \<Rightarrow> Some w3)))
            else
              (case scanFiles existingDocs (packageJsons w) [] of
                 Inl Beyond \<Rightarrow> None
               | Inl (Thrown e) \<Rightarrow> Some (updateFailed e w1)
               | Inr newDocs \<Rightarrow>
                   (case writeDocs (JObj (mergeExisting existingDocs newDocs)) w1 of
                      Inl e \<Rightarrow> Some (updateFailed e w1)
                    | Inr w2 \<Rightarrow>
                        Some (notify (Info ''script-docs.json has been updated successfully!'') w2)))))"

section \<open>The watcher of the documentation file\<close>

text \<open>
  \<^verbatim>\<open>debounce(func, wait)\<close> keeps one timer. Time is counted in milliseconds. The state of the
  extension after \<^verbatim>\<open>activate\<close> is the provider's world and the time at which the pending
  timer of \<^verbatim>\<open>debouncedClearCache\<close> is due, if one is pending. The host runs a timer that
  is due before it delivers a later event.
\<close>

record extension =
  provider :: world
  timeout :: "nat option"

text \<open>The debounced function: clear the cache and say so.\<close>

definition clearAndTell :: "world \<Rightarrow> world" where
  "clearAndTell w = notify (Info ''Package Scripts documentation cache reloaded.'') (clearCache w)"

text \<open>\<^verbatim>\<open>later\<close>: the timer's callback.\<close>

definition later :: "extension \<Rightarrow> extension" where
  "later e = e\<lparr>timeout := None, provider := clearAndTell (provider e)\<rparr>"

text \<open>
  A call of the debounced function at time \<open>now\<close>: a pending timer is cleared and a new
  one set.
\<close>

definition debounced :: "nat \<Rightarrow> nat \<Rightarrow> extension \<Rightarrow> extension" where
  "debounced wait now e = e\<lparr>timeout := Some (now + wait)\<rparr>"

definition elapse :: "nat \<Rightarrow> extension \<Rightarrow> extension" where
  "elapse now e =
     (case timeout e of
        None \<Rightarrow> e
      | Some due \<Rightarrow> if due \<le> now then later e else e)"

text \<open>
  \<^verbatim>\<open>onDidChange\<close>, \<^verbatim>\<open>onDidCreate\<close> and \<^verbatim>\<open>onDidDelete\<close> all call
  \<^verbatim>\<open>debouncedClearCache(provider)\<close>, made with a wait of 500.
\<close>

definition watcherEvent :: "nat \<Rightarrow> extension \<Rightarrow> extension" where
  "watcherEvent now e = debounced 500 now (elapse now e)"

fun watcherEvents :: "nat list \<Rightarrow> extension \<Rightarrow> extension" where
  "watcherEvents [] e = e"
| "watcherEvents (t # ts) e = watcherEvents ts (watcherEvent t e)"

text \<open>The command \<^verbatim>\<open>package-scripts-hover.reload\<close>.\<close>

definition reloadCommand :: "world \<Rightarrow> world" where
  "reloadCommand w = notify (Info ''Package Scripts documentation has been reloaded'') (clearCache w)"

text \<open>Events that follow one another, each less than \<open>wait\<close> after the one before.\<close>

fun rapid :: "nat \<Rightarrow> nat \<Rightarrow> nat list \<Rightarrow> bool" where
  "rapid wait t [] = True"
| "rapid wait t (u # us) = (t \<le> u \<and> u < t + wait \<and> rapid wait u us)"

section \<open>Shapes of lines and of documentation\<close>

text \<open>A key or a string value as it stands in the text of a line, between quotes.\<close>

definition quoted :: "string \<Rightarrow> string" where
  "quoted s = dq # s @ [dq]"

text \<open>
  The documentation is an object, and what it has under \<open>name\<close> has a string.
\<close>

definition described :: "json \<Rightarrow> string \<Rightarrow> bool" where
  "described docs name =
     (case get_prop docs name of
        Inr d \<Rightarrow> converts_val d
      | Inl f \<Rightarrow> False)"

text \<open>
  The loaded documentation has, for the package at \<open>relPath\<close>, nothing, \<^verbatim>\<open>null\<close>, or an
  object in which what stands under \<open>name\<close> has a string.
\<close>

definition describable :: "json option \<Rightarrow> string \<Rightarrow> string \<Rightarrow> bool" where
  "describable loaded relPath name =
     (case loaded of
        None \<Rightarrow> True
      | Some docs \<Rightarrow>
          (case get_prop docs relPath of
             Inr Undefined \<Rightarrow> True
           | Inr (Val JNull) \<Rightarrow> True
           | Inr (Val (JObj entry)) \<Rightarrow> described (JObj entry) name
           | _ \<Rightarrow> False))"







section \<open>Example documents and workspaces\<close>

text \<open>
  A \<^verbatim>\<open>package.json\<close> with three scripts and a \<^verbatim>\<open>config\<close> object that repeats the key
  \<^verbatim>\<open>test\<close>, line by line:
  \<^verbatim>\<open>{\<close>,
  \<^verbatim>\<open>  "name": "app",\<close>,
  \<^verbatim>\<open>  "scripts": {\<close>,
  \<^verbatim>\<open>    "test": "jest",\<close>,
  \<^verbatim>\<open>    "build.prod": "vite build",\<close>,
  \<^verbatim>\<open>    "clean": ""\<close>,
  \<^verbatim>\<open>  },\<close>,
  \<^verbatim>\<open>  "config": {\<close>,
  \<^verbatim>\<open>    "test": "value",\<close>,
  \<^verbatim>\<open>    "port": "8080",\<close>,
  \<^verbatim>\<open>    "constructor": "Widget"\<close>,
  \<^verbatim>\<open>  }\<close>,
  \<^verbatim>\<open>}\<close>.
\<close>

definition manifest_scripts :: "(string \<times> json) list" where
  "manifest_scripts =
     [(''test'', JStr ''jest''), (''build.prod'', JStr ''vite build''), (''clean'', JStr '''')]"

definition manifest_members :: "(string \<times> json) list" where
  "manifest_members =
     [(''name'', JStr ''app''),
      (''scripts'', JObj manifest_scripts),
      (''config'', JObj [(''test'', JStr ''value''),
                         (''port'', JStr ''8080''),
                         (''constructor'', JStr ''Widget'')])]"

definition manifest :: json where
  "manifest = JObj manifest_members"

definition manifest_document :: TextDocument where
  "manifest_document =
     \<lparr>fileName = ''/work/app/package.json'',
      relativePath = ''package.json'',
      parsed = Some manifest,
      lines =
        [''{'',
         ''  '' @ quoted ''name'' @ '': '' @ quoted ''app'' @ '','',
         ''  '' @ quoted ''scripts'' @ '': {'',
         ''    '' @ quoted ''test'' @ '': '' @ quoted ''jest'' @ '','',
         ''    '' @ quoted ''build.prod'' @ '': '' @ quoted ''vite build'' @ '','',
         ''    '' @ quoted ''clean'' @ '': '' @ quoted '''',
         ''  },'',
         ''  '' @ quoted ''config'' @ '': {'',
         ''    '' @ quoted ''test'' @ '': '' @ quoted ''value'' @ '','',
         ''    '' @ quoted ''port'' @ '': '' @ quoted ''8080'' @ '','',
         ''    '' @ quoted ''constructor'' @ '': '' @ quoted ''Widget'',
         ''  }'',
         ''}'']\<rparr>"

text \<open>The same file while it is being typed: the text ends after the fourth line.\<close>

definition unfinished_document :: TextDocument where
  "unfinished_document =
     \<lparr>fileName = ''/work/app/package.json'',
      relativePath = ''package.json'',
      parsed = None,
      lines =
        [''{'',
         ''  '' @ quoted ''name'' @ '': '' @ quoted ''app'' @ '','',
         ''  '' @ quoted ''scripts'' @ '': {'',
         ''    '' @ quoted ''test'' @ '': '' @ quoted ''jest'' @ '','']\<rparr>"

text \<open>A workspace without a documentation file, and nothing cached.\<close>

definition no_docs :: world where
  "no_docs =
     \<lparr>cachedDocs = None,
      hasWorkspace = True,
      scriptDocs = Missing ''file not found'',
      writeError = None,
      packageJsons = [(''package.json'', Holds manifest)],
      shown = []\<rparr>"

text \<open>The documentation file is there, but its text is cut off.\<close>

definition malformed_docs :: world where
  "malformed_docs = no_docs\<lparr>scriptDocs := Malformed ''Unexpected end of JSON input''\<rparr>"

text \<open>
  A documentation file of the old shape, \<^verbatim>\<open>{"dev":"x","build":"y"}\<close>, in a workspace with a
  second package.
\<close>

definition flat_docs :: world where
  "flat_docs =
     no_docs\<lparr>scriptDocs := Holds (JObj [(''dev'', JStr ''x''), (''build'', JStr ''y'')]),
             packageJsons := [(''package.json'', Holds manifest),
                              (''packages/frontend/package.json'',
                               Holds (JObj [(''name'', JStr ''frontend'')]))]\<rparr>"

text \<open>
  A documented workspace: \<^verbatim>\<open>build\<close> of the root package has a description, the package
  \<^verbatim>\<open>packages/old\<close> was documented but has no scripts any more, and \<^verbatim>\<open>packages/new\<close> is
  new and has none.
\<close>

definition documented_existing :: "(string \<times> json) list" where
  "documented_existing =
     [(''package.json'', JObj [(''build'', JStr ''old desc'')]),
      (''packages/old/package.json'', JObj [(''start'', JStr ''Starts it'')])]"

definition documented_scripts :: "(string \<times> json) list" where
  "documented_scripts = [(''build'', JStr ''tsc''), (''test'', JStr ''jest'')]"

definition documented :: world where
  "documented =
     no_docs\<lparr>scriptDocs := Holds (JObj documented_existing),
             packageJsons :=
               [(''package.json'', Holds (JObj [(''scripts'', JObj documented_scripts)])),
                (''packages/old/package.json'', Holds (JObj [(''name'', JStr ''old'')])),
                (''packages/new/package.json'', Holds (JObj [(''name'', JStr ''new'')]))]\<rparr>"

text \<open>The description of \<^verbatim>\<open>build\<close> is there, and empty.\<close>

definition blank_description :: world where
  "blank_description =
     no_docs\<lparr>scriptDocs := Holds (JObj [(''package.json'', JObj [(''build'', JStr '''')])]),
             packageJsons :=
               [(''package.json'', Holds (JObj [(''scripts'', JObj [(''build'', JStr ''tsc'')])]))]\<rparr>"

text \<open>
  Documentation in which the description of \<^verbatim>\<open>test\<close> is an object with a key
  \<^verbatim>\<open>toString\<close>: \<^verbatim>\<open>{"test": {"toString": "x"}}\<close> for the provider with a flat file, and the
  same under \<^verbatim>\<open>package.json\<close> for the provider with a nested file.
\<close>

definition object_description :: world where
  "object_description =
     no_docs\<lparr>scriptDocs := Holds (JObj [(''test'', JObj [(''toString'', JStr ''x'')])])\<rparr>"

definition object_description_nested :: world where
  "object_description_nested =
     no_docs\<lparr>scriptDocs :=
               Holds (JObj [(''package.json'',
                            JObj [(''test'', JObj [(''toString'', JStr ''x'')])])])\<rparr>"

text \<open>
  A package whose second command is such an object,
  \<^verbatim>\<open>{"scripts": {"a": "A", "o": {"toString": "abc"}}}\<close>, in a workspace without
  documentation.
\<close>

definition object_command :: world where
  "object_command =
     no_docs\<lparr>packageJsons :=
               [(''package.json'',
                 Holds (JObj [(''scripts'',
                              JObj [(''a'', JStr ''A''),
                                    (''o'', JObj [(''toString'', JStr ''abc'')])])]))]\<rparr>"

section \<open>Facts about the operations\<close>

lemma map_of_set_own: "map_of (set_own kvs k v) = (map_of kvs)(k \<mapsto> v)"
  by (induction kvs k v rule: set_own.induct) auto

lemma takeWhile_upto: "\<not> P c \<Longrightarrow> list_all P xs \<Longrightarrow> takeWhile P (xs @ c # r) = xs"
  by (induction xs) auto

lemma dropWhile_upto: "\<not> P c \<Longrightarrow> list_all P xs \<Longrightarrow> dropWhile P (xs @ c # r) = c # r"
  by (induction xs) auto

subsection \<open>The line patterns on a line that holds a key\<close>

lemma lineMatch_skip: "dq \<notin> set indent \<Longrightarrow> lineMatch (indent @ l) = lineMatch l"
  by (induction indent) auto

lemma lineMatch_here:
  assumes "name \<noteq> []" "dq \<notin> set name"
  shows "lineMatch (dq # name @ dq # CHR '':'' # rest) = Some name"
proof -
  have a: "list_all (\<lambda>x. x \<noteq> dq) name"
    using assms(2) by (simp add: list_all_iff) blast
  have t: "takeWhile (\<lambda>x. x \<noteq> dq) (name @ dq # CHR '':'' # rest) = name"
    by (rule takeWhile_upto) (simp_all add: a)
  have d: "dropWhile (\<lambda>x. x \<noteq> dq) (name @ dq # CHR '':'' # rest) = dq # CHR '':'' # rest"
    by (rule dropWhile_upto) (simp_all add: a)
  show ?thesis using assms(1) by (simp add: t d)
qed

lemma lineMatch_key:
  "dq \<notin> set indent \<Longrightarrow> name \<noteq> [] \<Longrightarrow> dq \<notin> set name \<Longrightarrow>
   lineMatch (indent @ dq # name @ dq # CHR '':'' # rest) = Some name"
  by (metis lineMatch_skip lineMatch_here)

lemma lineMatch_member:
  assumes "dq \<notin> set indent" "name \<noteq> []" "dq \<notin> set name"
  shows "lineMatch (indent @ quoted name @ '': '' @ rest) = Some name"
  using lineMatch_key [OF assms, of "CHR '' '' # rest"] by (simp add: quoted_def)

lemma dq_not_space: "\<not> is_space dq"
  by (simp add: is_space_def dq_def)

lemma dq_not_name_char: "\<not> is_name_char dq"
  by (simp add: is_name_char_def dq_def)

lemma colon_not_space: "\<not> is_space (CHR '':'')"
  by (simp add: is_space_def)

lemma scriptMatch_key:
  assumes "list_all is_space indent" "name \<noteq> []" "list_all is_name_char name"
    and "list_all is_space gap"
  shows "scriptMatch (indent @ dq # name @ dq # gap @ CHR '':'' # rest) = Some name"
proof -
  have 1: "dropWhile is_space (indent @ dq # name @ dq # gap @ CHR '':'' # rest)
             = dq # name @ dq # gap @ CHR '':'' # rest"
    by (rule dropWhile_upto) (simp_all add: dq_not_space assms)
  have 2: "takeWhile is_name_char (name @ dq # gap @ CHR '':'' # rest) = name"
    by (rule takeWhile_upto) (simp_all add: dq_not_name_char assms)
  have 3: "dropWhile is_name_char (name @ dq # gap @ CHR '':'' # rest) = dq # gap @ CHR '':'' # rest"
    by (rule dropWhile_upto) (simp_all add: dq_not_name_char assms)
  have 4: "dropWhile is_space (gap @ CHR '':'' # rest) = CHR '':'' # rest"
    by (rule dropWhile_upto) (simp_all add: colon_not_space assms)
  show ?thesis using assms(2) by (simp add: scriptMatch_def 1 2 3 4)
qed

lemma scriptMatch_member:
  assumes "list_all is_space indent" "name \<noteq> []" "list_all is_name_char name"
  shows "scriptMatch (indent @ quoted name @ '': '' @ rest) = Some name"
  using scriptMatch_key [OF assms, of "[]" "CHR '' '' # rest"] by (simp add: quoted_def)

subsection \<open>Property reads\<close>

lemma script_of_own:
  assumes "map_of packageJson ''scripts'' = Some (JObj scripts)"
  shows "script_of (JObj packageJson) name = Inr (read_own scripts name)"
  using assms by (simp add: script_of_def read_own_def)

lemma opt_get_Val: "get_prop v k = Inr r \<Longrightarrow> opt_get (Val v) k = Inr r"
  by (cases v) simp_all



lemma to_text_throws:
  "to_text r = Inl (Thrown x) \<Longrightarrow> \<not> converts_val r \<and> x = conversion_error"
proof (cases r)
  case (Val v)
  then show "to_text r = Inl (Thrown x) \<Longrightarrow> \<not> converts_val r \<and> x = conversion_error"
    by (cases v) (simp_all split: if_splits)
qed simp_all

lemma to_text_string: "to_text r = Inr s \<Longrightarrow> converts_val r"
proof (cases r)
  case (Val v)
  then show "to_text r = Inr s \<Longrightarrow> converts_val r"
    by (cases v) (simp_all split: if_splits)
qed simp_all

lemma converts_or_else: "converts_val d \<Longrightarrow> converts_val (or_else d no_description)"
  by (simp add: or_else_def no_description_def)

lemma render_values:
  "converts_val d \<Longrightarrow> converts_val cmd \<Longrightarrow>
   render name d cmd = Inr \<lparr>scriptName = name, description = d, command = cmd\<rparr>"
  by (simp add: render_def)



lemma package_json_not_inherited:
  "endsWith p ''package.json'' \<Longrightarrow> p \<notin> set object_prototype_names"
  by (auto simp: endsWith_def object_prototype_names_def)

lemma describable_reads:
  assumes "describable loaded relPath name"
  shows "\<exists>packageDocs d.
           opt_get (case loaded of None \<Rightarrow> Val JNull | Some docs \<Rightarrow> Val docs) relPath = Inr packageDocs
         \<and> opt_get packageDocs name = Inr d \<and> converts_val d"
proof (cases loaded)
  case None
  then show ?thesis by simp
next
  case (Some docs)
  with assms consider "get_prop docs relPath = Inr Undefined"
    | "get_prop docs relPath = Inr (Val JNull)"
    | entry where "get_prop docs relPath = Inr (Val (JObj entry))" "converts_val (read_own entry name)"
    by (auto simp: describable_def described_def split: sum.splits jsval.splits json.splits)
  then show ?thesis
    by cases (simp_all add: Some opt_get_Val)
qed

subsection \<open>The spread over the defaults\<close>

lemma fold_set_own:
  "distinct (map fst b) \<Longrightarrow>
   map_of (fold (\<lambda>(k, v) acc. set_own acc k v) b a) = map_of a ++ map_of b"
proof (induction b arbitrary: a)
  case Nil
  then show ?case by simp
next
  case (Cons p b)
  obtain k v where p: "p = (k, v)" by (cases p)
  from Cons.prems p have k: "map_of b k = None" and d: "distinct (map fst b)"
    by (auto simp: map_of_eq_None_iff)
  have "map_of (fold (\<lambda>(k, v) acc. set_own acc k v) b (set_own a k v))
          = map_of (set_own a k v) ++ map_of b"
    by (rule Cons.IH [OF d])
  also have "\<dots> = (map_of a)(k \<mapsto> v) ++ map_of b"
    by (simp only: map_of_set_own)
  also have "\<dots> = map_of a ++ map_of ((k, v) # b)"
    using k by (auto simp: map_add_def fun_eq_iff split: option.splits)
  finally show ?case by (simp only: p List.fold_simps prod.case)
qed

lemma spread_obj:
  "distinct (map fst b) \<Longrightarrow> map_of (spread a (JObj b)) = map_of a ++ map_of b"
  by (simp add: spread_def fold_set_own)

subsection \<open>The new structure\<close>

lemma newStructure_step:
  "map_of (fold (\<lambda>relPath acc.
             if relPath \<noteq> ''package.json'' \<and> \<not> truthy_val (read_own acc relPath)
             then set_own acc relPath (JObj [])
             else acc) paths acc) p
   = (if p \<in> set paths \<and> p \<noteq> ''package.json'' \<and> \<not> truthy_val (read_own acc p)
      then Some (JObj []) else map_of acc p)"
proof (induction paths arbitrary: acc)
  case Nil
  then show ?case by simp
next
  case (Cons q paths)
  show ?case
    by (simp add: Cons.IH) (auto simp: read_own_def map_of_set_own split: option.splits if_splits)
qed

lemma newStructure_map:
  "map_of (newStructure rawDocs paths) p
   = (if p = ''package.json'' then Some rawDocs
      else if p \<in> set paths \<and> p \<notin> set object_prototype_names then Some (JObj []) else None)"
  unfolding newStructure_def newStructure_step by (simp add: read_own_def)

lemma newStructure_not_old: "\<not> looksLikeOldStructure (JObj (newStructure rawDocs paths))"
proof -
  have "map_of (newStructure rawDocs paths) ''package.json'' = Some rawDocs"
    by (simp add: newStructure_map)
  then have "''package.json'' \<in> fst ` set (newStructure rawDocs paths)"
    by (metis map_of_eq_None_iff option.distinct(1))
  then show ?thesis
    by (simp add: looksLikeOldStructure_def object_keys_def list_ex_iff) force
qed

subsection \<open>The timer\<close>

lemma rapid_keeps_pending:
  "rapid 500 t ts \<Longrightarrow> timeout e = Some (t + 500) \<Longrightarrow>
   watcherEvents ts e = e\<lparr>timeout := Some (last (t # ts) + 500)\<rparr>"
proof (induction ts arbitrary: t e)
  case Nil
  then show ?case by simp
next
  case (Cons u us)
  have "watcherEvent u e = e\<lparr>timeout := Some (u + 500)\<rparr>"
    using Cons.prems by (simp add: watcherEvent_def elapse_def debounced_def)
  moreover have "watcherEvents us (e\<lparr>timeout := Some (u + 500)\<rparr>)
      = e\<lparr>timeout := Some (last (u # us) + 500)\<rparr>"
    using Cons.IH [of u "e\<lparr>timeout := Some (u + 500)\<rparr>"] Cons.prems by simp
  ultimately show ?case by simp
qed

subsection \<open>Regenerating\<close>



























section \<open>The hover\<close>

text \<open>The equations that evaluate a hover on the example document.\<close>

lemmas hover_evaluation =
  provideHover_def provideHover_flat_def lineAt_def scriptMatch_def script_of_def
  read_own_def endsWith_def is_space_def is_name_char_def quoted_def dq_def
  manifest_document_def manifest_def manifest_members_def manifest_scripts_def
  loadCustomDocs_def loadCustomDocs_flat_def cache_hit_def readFileError_def
  no_docs_def defaultDocs_def or_else_def no_description_def
  render_def conversion_error_def object_prototype_names_def Let_def

text \<open>
  Claim C6. When the text of the document is not valid JSON, \<^verbatim>\<open>provideHover\<close> returns
  \<^verbatim>\<open>null\<close> for every position, in both providers: no exception leaves it, and the world
  is as it was.
\<close>

theorem invalid_json_no_hover:
  "parsed document = None \<Longrightarrow>
     provideHover_flat document position w = (Inr None, w)
   \<and> provideHover document position w = (Inr None, w)"
  by (simp add: provideHover_flat_def provideHover_def)

theorem invalid_json_no_hover_witness:
  "parsed unfinished_document = None
   \<and> provideHover_flat unfinished_document \<lparr>line = 3, character = 6\<rparr> no_docs = (Inr None, no_docs)
   \<and> provideHover unfinished_document \<lparr>line = 3, character = 6\<rparr> no_docs = (Inr None, no_docs)"
proof -
  have h: "parsed unfinished_document = None"
    by (simp add: unfinished_document_def)
  from invalid_json_no_hover [OF h] h show ?thesis by simp
qed

text \<open>
  Claim C1, as amended. Let the document be valid JSON with a \<^verbatim>\<open>scripts\<close> object in which
  \<open>name\<close> is a key with a non-empty string \<open>cmd\<close> as its value, and let the line under the
  cursor be \<open>indent "name": "cmd" rest\<close> with a non-empty \<open>name\<close>. Then the hover is not
  \<^verbatim>\<open>null\<close>, its script name is \<open>name\<close> and its command is \<open>cmd\<close>,
  \<^item> in the provider with a flat file, when no quote stands before the key or in it and the
    documentation that is loaded is an object whose value for \<open>name\<close>, if it has one, can be
    converted to a string;
  \<^item> in the provider with a nested file, when the file name ends with \<^verbatim>\<open>package.json\<close>, the
    indentation is white space, the name is made of letters, digits, \<^verbatim>\<open>_\<close>, \<^verbatim>\<open>:\<close> and \<^verbatim>\<open>-\<close>,
    and the documentation has \<^verbatim>\<open>null\<close> or nothing for this package, or an object whose value
    for \<open>name\<close>, if it has one, can be converted to a string.

  A value cannot be converted to a string when it is an object with a key \<^verbatim>\<open>toString\<close>, or
  an array that holds such a value: the template of the hover then throws a
  \<^verbatim>\<open>TypeError\<close>.
\<close>

theorem script_line_hover:
  assumes "parsed document = Some (JObj packageJson)"
    and "map_of packageJson ''scripts'' = Some (JObj scripts)"
    and "map_of scripts name = Some (JStr cmd)"
    and "line position < length (lines document)"
    and "lines document ! line position = indent @ quoted name @ '': '' @ quoted cmd @ rest"
    and "name \<noteq> []" and "cmd \<noteq> []"
  shows "(dq \<notin> set indent \<and> dq \<notin> set name
           \<and> described (fst (loadCustomDocs_flat False w)) name \<longrightarrow>
           (\<exists>h w'. provideHover_flat document position w = (Inr (Some h), w')
                  \<and> scriptName h = name \<and> command h = Val (JStr cmd)))
       \<and> (list_all is_space indent \<and> list_all is_name_char name
           \<and> endsWith (fileName document) ''package.json''
           \<and> describable (fst (loadCustomDocs False w)) (relativePath document) name \<longrightarrow>
           (\<exists>h w'. provideHover document position w = (Inr (Some h), w')
                  \<and> scriptName h = name \<and> command h = Val (JStr cmd)))"
proof (intro conjI impI)
  have cmd: "script_of (JObj packageJson) name = Inr (Val (JStr cmd))"
    using assms(2,3) by (simp add: script_of_own read_own_def)
  have l: "lineAt document (line position) = Inr (indent @ quoted name @ '': '' @ quoted cmd @ rest)"
    using assms(4,5) by (simp add: lineAt_def)
  have r: "render name (or_else d no_description) (Val (JStr cmd))
             = Inr \<lparr>scriptName = name, description = or_else d no_description,
                     command = Val (JStr cmd)\<rparr>"
    if "converts_val d" for d
    by (rule render_values) (use that in \<open>simp_all add: converts_or_else\<close>)
  {
    assume a: "dq \<notin> set indent \<and> dq \<notin> set name
           \<and> described (fst (loadCustomDocs_flat False w)) name"
    have m: "lineMatch (indent @ quoted name @ '': '' @ quoted cmd @ rest) = Some name"
      by (rule lineMatch_member) (use a assms in simp_all)
    from a obtain d where d: "get_prop (fst (loadCustomDocs_flat False w)) name = Inr d"
      and c: "converts_val d"
      by (auto simp: described_def split: sum.splits)
    show "\<exists>h w'. provideHover_flat document position w = (Inr (Some h), w')
                 \<and> scriptName h = name \<and> command h = Val (JStr cmd)"
      using assms(1,7) cmd l m d r [OF c]
      by (cases "loadCustomDocs_flat False w") (simp add: provideHover_flat_def)
  }
  {
    assume a: "list_all is_space indent \<and> list_all is_name_char name
           \<and> endsWith (fileName document) ''package.json''
           \<and> describable (fst (loadCustomDocs False w)) (relativePath document) name"
    have m: "scriptMatch (indent @ quoted name @ '': '' @ quoted cmd @ rest) = Some name"
      by (rule scriptMatch_member) (use a assms in simp_all)
    from a have e: "endsWith (fileName document) ''package.json''"
      and d: "describable (fst (loadCustomDocs False w)) (relativePath document) name"
      by simp_all
    from describable_reads [OF d] obtain packageDocs v
      where p: "opt_get (case fst (loadCustomDocs False w) of None \<Rightarrow> Val JNull | Some docs \<Rightarrow> Val docs)
                  (relativePath document) = Inr packageDocs"
        and v: "opt_get packageDocs name = Inr v" and c: "converts_val v"
      by blast
    show "\<exists>h w'. provideHover document position w = (Inr (Some h), w')
                 \<and> scriptName h = name \<and> command h = Val (JStr cmd)"
      using assms(1,7) cmd l m e p v r [OF c]
      by (cases "loadCustomDocs False w") (simp add: provideHover_def)
  }
qed

theorem script_line_hover_witness:
  "(\<exists>h w'. provideHover_flat manifest_document \<lparr>line = 3, character = 6\<rparr> no_docs = (Inr (Some h), w')
          \<and> scriptName h = ''test'' \<and> command h = Val (JStr ''jest''))
   \<and> (\<exists>h w'. provideHover manifest_document \<lparr>line = 3, character = 6\<rparr> no_docs = (Inr (Some h), w')
          \<and> scriptName h = ''test'' \<and> command h = Val (JStr ''jest''))"
proof -
  have 1: "parsed manifest_document = Some (JObj manifest_members)"
    by (simp add: manifest_document_def manifest_def)
  have 2: "map_of manifest_members ''scripts'' = Some (JObj manifest_scripts)"
    by (simp add: manifest_members_def)
  have 3: "map_of manifest_scripts ''test'' = Some (JStr ''jest'')"
    by (simp add: manifest_scripts_def)
  have 4: "line \<lparr>line = 3, character = 6\<rparr> < length (lines manifest_document)"
    by (simp add: manifest_document_def)
  have 5: "lines manifest_document ! line \<lparr>line = 3, character = 6\<rparr>
             = ''    '' @ quoted ''test'' @ '': '' @ quoted ''jest'' @ '',''"
    by (simp add: manifest_document_def)
  have 6: "''test'' \<noteq> []" and 7: "''jest'' \<noteq> []"
    by simp_all
  have f: "dq \<notin> set ''    '' \<and> dq \<notin> set ''test''
           \<and> described (fst (loadCustomDocs_flat False no_docs)) ''test''"
    by (simp add: dq_def described_def loadCustomDocs_flat_def cache_hit_def no_docs_def
                  defaultDocs_def read_own_def Let_def)
  have n: "list_all is_space ''    '' \<and> list_all is_name_char ''test''
           \<and> endsWith (fileName manifest_document) ''package.json''
           \<and> describable (fst (loadCustomDocs False no_docs)) (relativePath manifest_document) ''test''"
    by (simp add: is_space_def is_name_char_def endsWith_def manifest_document_def describable_def
                  loadCustomDocs_def cache_hit_def readFileError_def no_docs_def)
  from script_line_hover [OF 1 2 3 4 5 6 7, of no_docs] f n show ?thesis by blast
qed

text \<open>
  Claim C1, as stated, fails in three places of the example document.
  \<^verbatim>\<open>build.prod\<close> is a key of \<^verbatim>\<open>scripts\<close> and line 4 is \<^verbatim>\<open>"build.prod": "vite build",\<close>, but
  the pattern of the provider with a nested file admits no dot in a name, and the hover is
  \<^verbatim>\<open>null\<close>. \<^verbatim>\<open>clean\<close> is a key of \<^verbatim>\<open>scripts\<close> and line 5 is \<^verbatim>\<open>"clean": ""\<close>, but its command
  is the empty string, which is falsy, and the hover is \<^verbatim>\<open>null\<close> in both providers.
\<close>

theorem script_line_without_hover:
  "map_of manifest_scripts ''build.prod'' = Some (JStr ''vite build'')
   \<and> lines manifest_document ! 4 = ''    '' @ quoted ''build.prod'' @ '': '' @ quoted ''vite build'' @ '',''
   \<and> fst (provideHover manifest_document \<lparr>line = 4, character = 8\<rparr> no_docs) = Inr None
   \<and> map_of manifest_scripts ''clean'' = Some (JStr '''')
   \<and> lines manifest_document ! 5 = ''    '' @ quoted ''clean'' @ '': '' @ quoted ''''
   \<and> fst (provideHover_flat manifest_document \<lparr>line = 5, character = 8\<rparr> no_docs) = Inr None
   \<and> fst (provideHover manifest_document \<lparr>line = 5, character = 8\<rparr> no_docs) = Inr None"
  by (simp add: hover_evaluation)

text \<open>
  The condition on the description cannot be dropped. When the documentation gives the
  script \<^verbatim>\<open>test\<close> the object \<^verbatim>\<open>{"toString": "x"}\<close> as its description, in the flat file or
  under \<^verbatim>\<open>package.json\<close> in the nested one, the template of the hover throws on line 3 of
  the example document, \<^verbatim>\<open>"test": "jest",\<close>, and no hover is returned.
\<close>

lemma object_description_throws:
  "fst (provideHover_flat manifest_document \<lparr>line = 3, character = 6\<rparr> object_description)
     = Inl (Thrown (Error ''Cannot convert object to primitive value''))
   \<and> fst (provideHover manifest_document \<lparr>line = 3, character = 6\<rparr> object_description_nested)
     = Inl (Thrown (Error ''Cannot convert object to primitive value''))"
  by (simp add: hover_evaluation object_description_def object_description_nested_def
                spread_def looksLikeOldStructure_def object_keys_def)

text \<open>
  Claim C4, as amended. In a valid document with a \<^verbatim>\<open>scripts\<close> object, the hover is
  \<^verbatim>\<open>null\<close>, and the world is as it was, when the pattern finds no key on the line, when the
  key it finds is neither a key of \<^verbatim>\<open>scripts\<close> nor the name of a member of
  \<^verbatim>\<open>Object.prototype\<close>, and when it is a key of \<^verbatim>\<open>scripts\<close> with a falsy value. Where on
  the line or in the document the position lies plays no part.
\<close>

theorem no_script_no_hover:
  assumes "parsed document = Some (JObj packageJson)"
    and "map_of packageJson ''scripts'' = Some (JObj scripts)"
    and "line position < length (lines document)"
  shows "(lineMatch (lines document ! line position) = None
          \<or> (\<exists>name. lineMatch (lines document ! line position) = Some name
                \<and> (map_of scripts name = None \<and> name \<notin> set object_prototype_names
                   \<or> (\<exists>v. map_of scripts name = Some v \<and> \<not> truthy v)))
          \<longrightarrow> provideHover_flat document position w = (Inr None, w))
       \<and> (scriptMatch (lines document ! line position) = None
          \<or> (\<exists>name. scriptMatch (lines document ! line position) = Some name
                \<and> (map_of scripts name = None \<and> name \<notin> set object_prototype_names
                   \<or> (\<exists>v. map_of scripts name = Some v \<and> \<not> truthy v)))
          \<longrightarrow> provideHover document position w = (Inr None, w))"
  using assms
  by (auto simp: provideHover_flat_def provideHover_def lineAt_def script_of_own read_own_def)

theorem no_script_no_hover_witness:
  "provideHover_flat manifest_document \<lparr>line = 9, character = 6\<rparr> no_docs = (Inr None, no_docs)
   \<and> provideHover manifest_document \<lparr>line = 9, character = 6\<rparr> no_docs = (Inr None, no_docs)"
proof -
  have 1: "parsed manifest_document = Some (JObj manifest_members)"
    by (simp add: manifest_document_def manifest_def)
  have 2: "map_of manifest_members ''scripts'' = Some (JObj manifest_scripts)"
    by (simp add: manifest_members_def)
  have 3: "line \<lparr>line = 9, character = 6\<rparr> < length (lines manifest_document)"
    by (simp add: manifest_document_def)
  have l: "lineMatch (lines manifest_document ! line \<lparr>line = 9, character = 6\<rparr>) = Some ''port''"
    by (simp add: manifest_document_def quoted_def dq_def)
  have s: "scriptMatch (lines manifest_document ! line \<lparr>line = 9, character = 6\<rparr>) = Some ''port''"
    by (simp add: manifest_document_def quoted_def dq_def scriptMatch_def is_space_def is_name_char_def)
  have k: "map_of manifest_scripts ''port'' = None \<and> ''port'' \<notin> set object_prototype_names"
    by (simp add: manifest_scripts_def object_prototype_names_def)
  from no_script_no_hover [OF 1 2 3, of no_docs] l s k show ?thesis by blast
qed

text \<open>
  Claim C4, as stated, fails on line 8 of the example document, \<^verbatim>\<open>"test": "value",\<close>: the
  line lies in the \<^verbatim>\<open>config\<close> object, outside \<^verbatim>\<open>scripts\<close>, and both providers show the hover
  of the script \<^verbatim>\<open>test\<close>.
\<close>

theorem hover_outside_scripts:
  "fst (provideHover_flat manifest_document \<lparr>line = 8, character = 6\<rparr> no_docs)
     = Inr (Some \<lparr>scriptName = ''test'', description = Val (JStr ''Runs tests''),
                 command = Val (JStr ''jest'')\<rparr>)
   \<and> fst (provideHover manifest_document \<lparr>line = 8, character = 6\<rparr> no_docs)
     = Inr (Some \<lparr>scriptName = ''test'', description = Val (JStr ''No description available.''),
                 command = Val (JStr ''jest'')\<rparr>)"
  by (simp add: hover_evaluation)

text \<open>
  The names left out of the theorem for C4 do get a hover: on line 10 of the example
  document, \<^verbatim>\<open>"constructor": "Widget"\<close>, the read \<^verbatim>\<open>scripts["constructor"]\<close> finds the member
  that every object inherits, which is truthy.
\<close>

lemma inherited_member_hover:
  "fst (provideHover_flat manifest_document \<lparr>line = 10, character = 6\<rparr> no_docs)
     = Inr (Some \<lparr>scriptName = ''constructor'', description = Inherited ''constructor'',
                 command = Inherited ''constructor''\<rparr>)
   \<and> fst (provideHover manifest_document \<lparr>line = 10, character = 6\<rparr> no_docs)
     = Inr (Some \<lparr>scriptName = ''constructor'',
                 description = Val (JStr ''No description available.''),
                 command = Inherited ''constructor''\<rparr>)"
  by (simp add: hover_evaluation)

text \<open>
  Claim C5, as amended. On the line \<^verbatim>\<open>"test": "jest"\<close> of a valid document whose \<^verbatim>\<open>scripts\<close>
  has \<^verbatim>\<open>test\<close> with the command \<^verbatim>\<open>jest\<close>, with nothing cached and no documentation file,
  the provider with a flat file gives the built-in description \<^verbatim>\<open>Runs tests\<close> and the
  command \<^verbatim>\<open>jest\<close>; the provider with a nested file has no built-in descriptions and gives
  \<^verbatim>\<open>No description available.\<close> with the command \<^verbatim>\<open>jest\<close>.
\<close>

theorem description_without_docs_file:
  assumes "parsed document = Some (JObj packageJson)"
    and "map_of packageJson ''scripts'' = Some (JObj scripts)"
    and "map_of scripts ''test'' = Some (JStr ''jest'')"
    and "line position < length (lines document)"
    and "lines document ! line position = indent @ quoted ''test'' @ '': '' @ quoted ''jest'' @ rest"
    and "cachedDocs w = None" and "scriptDocs w = Missing m"
  shows "(dq \<notin> set indent \<longrightarrow>
           provideHover_flat document position w =
             (Inr (Some \<lparr>scriptName = ''test'', description = Val (JStr ''Runs tests''),
                         command = Val (JStr ''jest'')\<rparr>),
              w\<lparr>cachedDocs := Some (JObj defaultDocs)\<rparr>))
       \<and> (list_all is_space indent \<and> endsWith (fileName document) ''package.json'' \<longrightarrow>
           provideHover document position w =
             (Inr (Some \<lparr>scriptName = ''test'', description = Val (JStr ''No description available.''),
                         command = Val (JStr ''jest'')\<rparr>),
              w))"
proof (intro conjI impI)
  have cmd: "script_of (JObj packageJson) ''test'' = Inr (Val (JStr ''jest''))"
    using assms(2,3) by (simp add: script_of_own read_own_def)
  have l: "lineAt document (line position)
             = Inr (indent @ quoted ''test'' @ '': '' @ quoted ''jest'' @ rest)"
    using assms(4,5) by (simp add: lineAt_def)
  have n: "list_all is_name_char ''test''"
    by (simp add: is_name_char_def)
  have d: "read_own defaultDocs ''test'' = Val (JStr ''Runs tests'')"
    by (simp add: read_own_def defaultDocs_def)
  have f: "loadCustomDocs_flat False w = (JObj defaultDocs, w\<lparr>cachedDocs := Some (JObj defaultDocs)\<rparr>)"
    using assms(6,7) by (simp add: loadCustomDocs_flat_def cache_hit_def Let_def)
  have g: "loadCustomDocs False w = (None, w)"
    using assms(6,7) by (simp add: loadCustomDocs_def cache_hit_def readFileError_def)
  {
    assume a: "dq \<notin> set indent"
    have m: "lineMatch (indent @ quoted ''test'' @ '': '' @ quoted ''jest'' @ rest) = Some ''test''"
      by (rule lineMatch_member) (use a in \<open>simp_all add: dq_def\<close>)
    show "provideHover_flat document position w =
             (Inr (Some \<lparr>scriptName = ''test'', description = Val (JStr ''Runs tests''),
                         command = Val (JStr ''jest'')\<rparr>),
              w\<lparr>cachedDocs := Some (JObj defaultDocs)\<rparr>)"
      using assms(1) cmd l m f d
      by (simp add: provideHover_flat_def or_else_def render_def)
  }
  {
    assume a: "list_all is_space indent \<and> endsWith (fileName document) ''package.json''"
    have m: "scriptMatch (indent @ quoted ''test'' @ '': '' @ quoted ''jest'' @ rest) = Some ''test''"
      by (rule scriptMatch_member) (use a n in simp_all)
    show "provideHover document position w =
             (Inr (Some \<lparr>scriptName = ''test'', description = Val (JStr ''No description available.''),
                         command = Val (JStr ''jest'')\<rparr>),
              w)"
      using assms(1) cmd l m g a
      by (simp add: provideHover_def or_else_def no_description_def render_def)
  }
qed

theorem description_without_docs_file_witness:
  "provideHover_flat manifest_document \<lparr>line = 3, character = 6\<rparr> no_docs =
     (Inr (Some \<lparr>scriptName = ''test'', description = Val (JStr ''Runs tests''),
                 command = Val (JStr ''jest'')\<rparr>),
      no_docs\<lparr>cachedDocs := Some (JObj defaultDocs)\<rparr>)
   \<and> provideHover manifest_document \<lparr>line = 3, character = 6\<rparr> no_docs =
     (Inr (Some \<lparr>scriptName = ''test'', description = Val (JStr ''No description available.''),
                 command = Val (JStr ''jest'')\<rparr>),
      no_docs)"
proof -
  have 1: "parsed manifest_document = Some (JObj manifest_members)"
    by (simp add: manifest_document_def manifest_def)
  have 2: "map_of manifest_members ''scripts'' = Some (JObj manifest_scripts)"
    by (simp add: manifest_members_def)
  have 3: "map_of manifest_scripts ''test'' = Some (JStr ''jest'')"
    by (simp add: manifest_scripts_def)
  have 4: "line \<lparr>line = 3, character = 6\<rparr> < length (lines manifest_document)"
    by (simp add: manifest_document_def)
  have 5: "lines manifest_document ! line \<lparr>line = 3, character = 6\<rparr>
             = ''    '' @ quoted ''test'' @ '': '' @ quoted ''jest'' @ '',''"
    by (simp add: manifest_document_def)
  have 6: "cachedDocs no_docs = None" and 7: "scriptDocs no_docs = Missing ''file not found''"
    by (simp_all add: no_docs_def)
  have a: "dq \<notin> set ''    ''"
    by (simp add: dq_def)
  have b: "list_all is_space ''    '' \<and> endsWith (fileName manifest_document) ''package.json''"
    by (simp add: is_space_def endsWith_def manifest_document_def)
  from description_without_docs_file [OF 1 2 3 4 5 6 7] a b show ?thesis by blast
qed

text \<open>
  Claim C5, as stated, fails in the provider with a nested file: on line 3 of the example
  document, \<^verbatim>\<open>"test": "jest",\<close>, without a documentation file, the description is not the
  built-in \<^verbatim>\<open>Runs tests\<close>.
\<close>

theorem no_default_description:
  "fst (provideHover manifest_document \<lparr>line = 3, character = 6\<rparr> no_docs)
     = Inr (Some \<lparr>scriptName = ''test'', description = Val (JStr ''No description available.''),
                 command = Val (JStr ''jest'')\<rparr>)
   \<and> scriptDocs no_docs = Missing ''file not found''"
  by (simp add: hover_evaluation)

section \<open>Loading the documentation\<close>

text \<open>
  Claim C9. A loaded value is taken for the old structure exactly when it is an object
  that is not an array, has at least one key, and has no key that contains \<^verbatim>\<open>/\<close> or
  \<^verbatim>\<open>\\<close> or is \<^verbatim>\<open>package.json\<close>.
\<close>

theorem looksLikeOldStructure_iff:
  "looksLikeOldStructure rawDocs \<longleftrightarrow>
     (\<exists>kvs. rawDocs = JObj kvs \<and> kvs \<noteq> []
        \<and> (\<forall>key \<in> fst ` set kvs.
              CHR ''/'' \<notin> set key \<and> CHR 0x5C \<notin> set key \<and> key \<noteq> ''package.json''))"
  by (cases rawDocs) (auto simp: looksLikeOldStructure_def object_keys_def list_ex_iff)

theorem looksLikeOldStructure_iff_witness:
  "looksLikeOldStructure (JObj [(''dev'', JStr ''x''), (''build'', JStr ''y'')])
   \<and> \<not> looksLikeOldStructure (JObj [(''packages/a/package.json'', JObj [])])
   \<and> \<not> looksLikeOldStructure (JObj [(''package.json'', JObj [(''dev'', JStr ''x'')])])
   \<and> \<not> looksLikeOldStructure (JObj [])
   \<and> \<not> looksLikeOldStructure (JArr [JStr ''dev''])"
  using looksLikeOldStructure_iff [of "JObj [(''dev'', JStr ''x''), (''build'', JStr ''y'')]"]
    looksLikeOldStructure_iff [of "JObj [(''packages/a/package.json'', JObj [])]"]
    looksLikeOldStructure_iff [of "JObj [(''package.json'', JObj [(''dev'', JStr ''x'')])]"]
    looksLikeOldStructure_iff [of "JObj []"]
    looksLikeOldStructure_iff [of "JArr [JStr ''dev'']"]
  by simp

text \<open>
  Claim C10. In the provider with a flat file, and in \<^verbatim>\<open>getScriptDocs\<close> before it, a load
  of a documentation file that holds an object gives the built-in defaults overridden by
  the file: a name of the file has the file's description, whether it is a default name or
  not, and every other name has what the defaults have for it.
\<close>

theorem custom_over_defaults:
  assumes "cache_hit force w = None"
    and "scriptDocs w = Holds (JObj custom)" and "distinct (map fst custom)"
  shows "(\<exists>merged.
            loadCustomDocs_flat force w = (JObj merged, w\<lparr>cachedDocs := Some (JObj merged)\<rparr>)
          \<and> (\<forall>name d. map_of custom name = Some d \<longrightarrow> map_of merged name = Some d)
          \<and> (\<forall>name. map_of custom name = None \<longrightarrow> map_of merged name = map_of defaultDocs name))
       \<and> (hasWorkspace w \<longrightarrow>
            (\<forall>name d. map_of custom name = Some d \<longrightarrow> map_of (getScriptDocs w) name = Some d)
          \<and> (\<forall>name. map_of custom name = None \<longrightarrow>
                map_of (getScriptDocs w) name = map_of defaultDocs0 name))"
  using assms
  by (auto simp: loadCustomDocs_flat_def getScriptDocs_def spread_obj map_add_def Let_def)

theorem custom_over_defaults_witness:
  "\<exists>merged.
     loadCustomDocs_flat False flat_docs = (JObj merged, flat_docs\<lparr>cachedDocs := Some (JObj merged)\<rparr>)
   \<and> map_of merged ''build'' = Some (JStr ''y'')
   \<and> map_of merged ''test'' = Some (JStr ''Runs tests'')
   \<and> map_of (getScriptDocs flat_docs) ''dev'' = Some (JStr ''x'')
   \<and> map_of (getScriptDocs flat_docs) ''format'' = Some (JStr ''Formats code using prettier'')"
proof -
  let ?custom = "[(''dev'', JStr ''x''), (''build'', JStr ''y'')]"
  have 1: "cache_hit False flat_docs = None"
    by (simp add: cache_hit_def flat_docs_def no_docs_def)
  have 2: "scriptDocs flat_docs = Holds (JObj ?custom)"
    by (simp add: flat_docs_def)
  have 3: "distinct (map fst ?custom)"
    by simp
  have 4: "hasWorkspace flat_docs"
    by (simp add: flat_docs_def no_docs_def)
  from custom_over_defaults [OF 1 2 3] 4 obtain merged
    where m: "loadCustomDocs_flat False flat_docs
                = (JObj merged, flat_docs\<lparr>cachedDocs := Some (JObj merged)\<rparr>)"
      and a: "\<And>name d. map_of ?custom name = Some d \<Longrightarrow> map_of merged name = Some d"
      and b: "\<And>name. map_of ?custom name = None \<Longrightarrow> map_of merged name = map_of defaultDocs name"
      and c: "\<And>name d. map_of ?custom name = Some d \<Longrightarrow> map_of (getScriptDocs flat_docs) name = Some d"
      and d: "\<And>name. map_of ?custom name = None \<Longrightarrow>
                map_of (getScriptDocs flat_docs) name = map_of defaultDocs0 name"
    by blast
  have "map_of merged ''build'' = Some (JStr ''y'')"
    by (rule a) simp
  moreover have "map_of merged ''test'' = Some (JStr ''Runs tests'')"
    using b [of "''test''"] by (simp add: defaultDocs_def)
  moreover have "map_of (getScriptDocs flat_docs) ''dev'' = Some (JStr ''x'')"
    by (rule c) simp
  moreover have "map_of (getScriptDocs flat_docs) ''format'' = Some (JStr ''Formats code using prettier'')"
    using d [of "''format''"] by (simp add: defaultDocs0_def)
  ultimately show ?thesis using m by blast
qed

text \<open>
  Claim C7, as amended. When a load finds no cached value to return and reading or parsing
  the documentation file throws, the provider with a nested file returns \<^verbatim>\<open>null\<close> and
  leaves the cache empty, as the reload command and the debounced callback of the watcher
  leave it; the provider with a flat file leaves the built-in defaults in the cache.
\<close>

theorem cache_after_failed_load:
  assumes "cache_hit force w = None" and "readJson (scriptDocs w) = Inl e"
  shows "(hasWorkspace w \<longrightarrow>
            fst (loadCustomDocs force w) = None \<and> cachedDocs (snd (loadCustomDocs force w)) = None)
       \<and> cachedDocs (reloadCommand w) = None
       \<and> cachedDocs (provider (later x)) = None
       \<and> loadCustomDocs_flat force w = (JObj defaultDocs, w\<lparr>cachedDocs := Some (JObj defaultDocs)\<rparr>)"
  using assms
  by (auto simp: loadCustomDocs_def loadCustomDocs_flat_def readFileError_def notify_def Let_def
                 reloadCommand_def later_def clearAndTell_def clearCache_def
           split: exn.splits)

theorem cache_after_failed_load_witness:
  "readJson (scriptDocs malformed_docs) = Inl (Error ''Unexpected end of JSON input'')
   \<and> fst (loadCustomDocs False malformed_docs) = None
   \<and> cachedDocs (snd (loadCustomDocs False malformed_docs)) = None
   \<and> cachedDocs (reloadCommand malformed_docs) = None
   \<and> loadCustomDocs_flat False malformed_docs
       = (JObj defaultDocs, malformed_docs\<lparr>cachedDocs := Some (JObj defaultDocs)\<rparr>)"
proof -
  have 1: "cache_hit False malformed_docs = None"
    by (simp add: cache_hit_def malformed_docs_def no_docs_def)
  have 2: "readJson (scriptDocs malformed_docs) = Inl (Error ''Unexpected end of JSON input'')"
    by (simp add: malformed_docs_def)
  have 3: "hasWorkspace malformed_docs"
    by (simp add: malformed_docs_def no_docs_def)
  from cache_after_failed_load [OF 1 2] 2 3 show ?thesis by blast
qed

text \<open>
  Claim C7, as stated, fails in the provider with a flat file: after a load of a
  documentation file whose text is cut off, the cache is not empty.
\<close>

theorem defaults_cached_after_failed_load:
  "readJson (scriptDocs malformed_docs) = Inl (Error ''Unexpected end of JSON input'')
   \<and> cachedDocs (snd (loadCustomDocs_flat False malformed_docs)) = Some (JObj defaultDocs)"
  by (simp add: loadCustomDocs_flat_def cache_hit_def malformed_docs_def no_docs_def Let_def)

text \<open>
  Claim C2. Let a load find no cached value to return, in a workspace with a folder where
  the documentation file can be written, and let the file hold a value that is taken for
  the old structure. Then the load writes the nested structure to the file: the old value
  under \<^verbatim>\<open>package.json\<close>, an empty object under the relative path of every other
  \<^verbatim>\<open>package.json\<close> found, and nothing else. It tells the user twice, once before and once
  after the conversion. The new value is not taken for the old structure, and every later
  load, forced or not, returns it and changes nothing: no file is written and no message
  shown.
\<close>

theorem migration_once:
  assumes "cache_hit force w = None" and "hasWorkspace w" and "writeError w = None"
    and "scriptDocs w = Holds rawDocs" and "looksLikeOldStructure rawDocs"
  shows "\<exists>new w'.
           loadCustomDocs force w = (Some (JObj new), w')
         \<and> scriptDocs w' = Holds (JObj new)
         \<and> map_of new ''package.json'' = Some rawDocs
         \<and> (\<forall>p \<in> fst ` set (packageJsons w).
               p \<noteq> ''package.json'' \<and> endsWith p ''package.json'' \<longrightarrow> map_of new p = Some (JObj []))
         \<and> (\<forall>p. p \<noteq> ''package.json'' \<and> p \<notin> fst ` set (packageJsons w) \<longrightarrow> map_of new p = None)
         \<and> shown w' = shown w @
              [Info ''Detected old script-docs.json structure. Converting to nested format.'',
               Info ''script-docs.json successfully converted to nested format.'']
         \<and> \<not> looksLikeOldStructure (JObj new)
         \<and> (\<forall>again. loadCustomDocs again w' = (Some (JObj new), w'))"
proof -
  define new where "new = newStructure rawDocs (map fst (packageJsons w))"
  define w' where "w' = (notify (Info ''script-docs.json successfully converted to nested format.'')
      ((notify (Info ''Detected old script-docs.json structure. Converting to nested format.'') w)
         \<lparr>scriptDocs := Holds (JObj new)\<rparr>))\<lparr>cachedDocs := Some (JObj new)\<rparr>"
  have 1: "loadCustomDocs force w = (Some (JObj new), w')"
    using assms by (simp add: loadCustomDocs_def Let_def new_def w'_def notify_def)
  have 2: "\<not> looksLikeOldStructure (JObj new)"
    by (simp add: new_def newStructure_not_old)
  have 3: "\<forall>again. loadCustomDocs again w' = (Some (JObj new), w')"
    using assms(2) 2
    by (simp add: loadCustomDocs_def cache_hit_def w'_def notify_def)
  have 4: "scriptDocs w' = Holds (JObj new)"
    and 5: "shown w' = shown w @
              [Info ''Detected old script-docs.json structure. Converting to nested format.'',
               Info ''script-docs.json successfully converted to nested format.'']"
    by (simp_all add: w'_def notify_def)
  have 6: "map_of new ''package.json'' = Some rawDocs"
    by (simp add: new_def newStructure_map)
  have 7: "\<forall>p \<in> fst ` set (packageJsons w).
               p \<noteq> ''package.json'' \<and> endsWith p ''package.json'' \<longrightarrow> map_of new p = Some (JObj [])"
    by (auto simp: new_def newStructure_map package_json_not_inherited)
  have 8: "\<forall>p. p \<noteq> ''package.json'' \<and> p \<notin> fst ` set (packageJsons w) \<longrightarrow> map_of new p = None"
    by (auto simp: new_def newStructure_map)
  from 1 2 3 4 5 6 7 8 show ?thesis by blast
qed

theorem migration_once_witness:
  "\<exists>new w'.
     loadCustomDocs False flat_docs = (Some (JObj new), w')
   \<and> scriptDocs w' = Holds (JObj new)
   \<and> map_of new ''package.json'' = Some (JObj [(''dev'', JStr ''x''), (''build'', JStr ''y'')])
   \<and> map_of new ''packages/frontend/package.json'' = Some (JObj [])
   \<and> map_of new ''dev'' = None
   \<and> loadCustomDocs True w' = (Some (JObj new), w')"
proof -
  let ?old = "JObj [(''dev'', JStr ''x''), (''build'', JStr ''y'')]"
  have 1: "cache_hit False flat_docs = None"
    by (simp add: cache_hit_def flat_docs_def no_docs_def)
  have 2: "hasWorkspace flat_docs" and 3: "writeError flat_docs = None"
    and 4: "scriptDocs flat_docs = Holds ?old"
    by (simp_all add: flat_docs_def no_docs_def)
  have 5: "looksLikeOldStructure ?old"
    by (simp add: looksLikeOldStructure_def object_keys_def)
  have p: "''packages/frontend/package.json'' \<in> fst ` set (packageJsons flat_docs)"
    and q: "''dev'' \<notin> fst ` set (packageJsons flat_docs)"
    by (simp_all add: flat_docs_def)
  have e: "endsWith ''packages/frontend/package.json'' ''package.json''"
    by (simp add: endsWith_def)
  from migration_once [OF 1 2 3 4 5] obtain new w'
    where a: "loadCustomDocs False flat_docs = (Some (JObj new), w')"
      "scriptDocs w' = Holds (JObj new)"
      "map_of new ''package.json'' = Some ?old"
      and b: "\<forall>p \<in> fst ` set (packageJsons flat_docs).
               p \<noteq> ''package.json'' \<and> endsWith p ''package.json'' \<longrightarrow> map_of new p = Some (JObj [])"
      and c: "\<forall>p. p \<noteq> ''package.json'' \<and> p \<notin> fst ` set (packageJsons flat_docs) \<longrightarrow> map_of new p = None"
      and d: "\<forall>again. loadCustomDocs again w' = (Some (JObj new), w')"
    by blast
  from b p e have "map_of new ''packages/frontend/package.json'' = Some (JObj [])"
    by fastforce
  moreover from c q have "map_of new ''dev'' = None"
    by simp
  moreover from d have "loadCustomDocs True w' = (Some (JObj new), w')"
    by simp
  ultimately show ?thesis using a by blast
qed

section \<open>The watcher\<close>

text \<open>
  Claim C8. Let no timer be pending, and let one or more events on the documentation file
  arrive, each less than 500 ms after the one before (three or more in particular). Every
  event puts the deadline 500 ms after itself. Until 500 ms have passed since the last
  event the provider has not changed; from then on the cache has been cleared exactly
  once, with one message, and no timer is pending.
\<close>

theorem rapid_changes_clear_once:
  assumes "timeout e = None" and "rapid 500 t ts"
  shows "timeout (watcherEvents (t # ts) e) = Some (last (t # ts) + 500)
       \<and> (\<forall>now. now < last (t # ts) + 500 \<longrightarrow>
             provider (elapse now (watcherEvents (t # ts) e)) = provider e)
       \<and> (\<forall>now. last (t # ts) + 500 \<le> now \<longrightarrow>
             elapse now (watcherEvents (t # ts) e)
               = e\<lparr>provider := clearAndTell (provider e), timeout := None\<rparr>)
       \<and> cachedDocs (clearAndTell (provider e)) = None
       \<and> shown (clearAndTell (provider e))
             = shown (provider e) @ [Info ''Package Scripts documentation cache reloaded.'']"
proof -
  have first: "watcherEvent t e = e\<lparr>timeout := Some (t + 500)\<rparr>"
    using assms(1) by (simp add: watcherEvent_def elapse_def debounced_def)
  have all: "watcherEvents (t # ts) e = e\<lparr>timeout := Some (last (t # ts) + 500)\<rparr>"
    using rapid_keeps_pending [OF assms(2), of "e\<lparr>timeout := Some (t + 500)\<rparr>"] first by simp
  show ?thesis
    unfolding all
    by (simp add: elapse_def later_def clearAndTell_def clearCache_def notify_def)
qed

theorem rapid_changes_clear_once_witness:
  "rapid 500 100 [250, 600]
   \<and> provider (elapse 1099 (watcherEvents [100, 250, 600] \<lparr>provider = flat_docs, timeout = None\<rparr>))
       = flat_docs
   \<and> elapse 1100 (watcherEvents [100, 250, 600] \<lparr>provider = flat_docs, timeout = None\<rparr>)
       = \<lparr>provider = clearAndTell flat_docs, timeout = None\<rparr>
   \<and> elapse 5000 (watcherEvents [100, 250, 600] \<lparr>provider = flat_docs, timeout = None\<rparr>)
       = \<lparr>provider = clearAndTell flat_docs, timeout = None\<rparr>
   \<and> shown (clearAndTell flat_docs) = [Info ''Package Scripts documentation cache reloaded.'']"
proof -
  let ?e = "\<lparr>provider = flat_docs, timeout = None\<rparr>"
  have 1: "timeout ?e = None"
    by simp
  have 2: "rapid 500 100 [250, 600]"
    by simp
  have 3: "shown flat_docs = []"
    by (simp add: flat_docs_def no_docs_def)
  from rapid_changes_clear_once [OF 1 2] 2 3 show ?thesis by simp
qed

section \<open>Regenerating the documentation\<close>


text \<open>The equations that evaluate the command on the example workspaces.\<close>

lemmas update_evaluation =
  updateScriptDocsForWorkspace_def readExisting_def scanFile_def scanPackage_def
  describeScript_def descriptionFor_def readError_def mergeExisting_def writeDocs_def
  updateFailed_def notify_def read_own_def object_prototype_names_def template_def
  documented_def documented_existing_def documented_scripts_def blank_description_def
  object_command_def conversion_error_def no_docs_def Let_def



text \<open>
  The condition on the commands cannot be dropped. When the \<^verbatim>\<open>package.json\<close> is
  \<^verbatim>\<open>{"scripts": {"a": "A", "o": {"toString": "abc"}}}\<close> and there is no documentation yet,
  the template throws at the script \<^verbatim>\<open>o\<close>; the handler of the file replaces the entry
  of the package, in which \<^verbatim>\<open>a\<close> had its template already, by an \<^verbatim>\<open>__error__\<close> entry.
\<close>

lemma object_command_error_entry:
  "map_option scriptDocs (updateScriptDocsForWorkspace object_command)
     = Some (Holds (JObj [(''package.json'',
          JObj [(''__error__'',
                 JStr ''Failed to process: Cannot convert object to primitive value'')])]))"
  by (simp add: update_evaluation)

end
